theory Spec2Isabelle
  imports Main "HOL-Library.Sublist" "HOL-Library.AList" "HOL-Library.Multiset"
begin

section \<open>Python strings\<close>

text \<open>
  A Python \<open>str\<close> is modelled as a \<open>string\<close> holding its UTF-8 bytes, as the files read and
  written hold it. The patterns the two scripts search for are ASCII, except the en-dash of
  \<open>count_per_year\<close>, which is the three bytes \<open>E2 80 93\<close>; a multi-byte UTF-8 sequence never
  contains an ASCII byte and never starts inside another one, so searching and replacing on
  the bytes agrees with Python's search on code points.
\<close>

definition bs :: char where
  "bs = CHR 0x5C"

text \<open>The characters for which \<open>str.isspace\<close> holds, each as its UTF-8 bytes: U+0009 to
  U+000D, U+001C to U+0020, U+0085, U+00A0, U+1680, U+2000 to U+200A, U+2028, U+2029, U+202F,
  U+205F and U+3000.\<close>

definition WHITESPACE :: "string list" where
  "WHITESPACE =
     [[CHR 0x09], [CHR 0x0A], [CHR 0x0B], [CHR 0x0C],
      [CHR 0x0D], [CHR 0x1C], [CHR 0x1D], [CHR 0x1E],
      [CHR 0x1F], [CHR 0x20], [CHR 0xC2, CHR 0x85], [CHR 0xC2, CHR 0xA0],
      [CHR 0xE1, CHR 0x9A, CHR 0x80], [CHR 0xE2, CHR 0x80, CHR 0x80], [CHR 0xE2, CHR 0x80, CHR 0x81], [CHR 0xE2, CHR 0x80, CHR 0x82],
      [CHR 0xE2, CHR 0x80, CHR 0x83], [CHR 0xE2, CHR 0x80, CHR 0x84], [CHR 0xE2, CHR 0x80, CHR 0x85], [CHR 0xE2, CHR 0x80, CHR 0x86],
      [CHR 0xE2, CHR 0x80, CHR 0x87], [CHR 0xE2, CHR 0x80, CHR 0x88], [CHR 0xE2, CHR 0x80, CHR 0x89], [CHR 0xE2, CHR 0x80, CHR 0x8A],
      [CHR 0xE2, CHR 0x80, CHR 0xA8], [CHR 0xE2, CHR 0x80, CHR 0xA9], [CHR 0xE2, CHR 0x80, CHR 0xAF], [CHR 0xE2, CHR 0x81, CHR 0x9F],
      [CHR 0xE3, CHR 0x80, CHR 0x80]]"

text \<open>Dropping from the front of a text as long as one of the given byte sequences starts
  it.\<close>

fun drop_tokens :: "string list \<Rightarrow> string \<Rightarrow> string" where
  "drop_tokens ws [] = []"
| "drop_tokens ws (a # s) =
     (case find (\<lambda>w. w \<noteq> [] \<and> prefix w (a # s)) ws of
        None \<Rightarrow> a # s
      | Some w \<Rightarrow> drop_tokens ws (drop (length w - 1) s))"

definition lstrip :: "string \<Rightarrow> string" where
  "lstrip s = drop_tokens WHITESPACE s"

definition rstrip :: "string \<Rightarrow> string" where
  "rstrip s = rev (drop_tokens (map rev WHITESPACE) (rev s))"

text \<open>\<open>s.strip()\<close>.\<close>

definition strip :: "string \<Rightarrow> string" where
  "strip s = rstrip (lstrip s)"

text \<open>The characters of a text, each as its bytes: a byte that is not a continuation byte
  (\<open>10xxxxxx\<close>) starts a character. \<open>s[:n]\<close> keeps the first \<open>n\<close> characters.\<close>

definition cont_byte :: "char \<Rightarrow> bool" where
  "cont_byte c = (0x80 \<le> (of_char c :: nat) \<and> (of_char c :: nat) < 0xC0)"

fun utf8_chars :: "string \<Rightarrow> string list" where
  "utf8_chars [] = []"
| "utf8_chars [a] = [[a]]"
| "utf8_chars [a, b] = (if cont_byte b then [[a, b]] else [[a], [b]])"
| "utf8_chars [a, b, c] =
     (if \<not> cont_byte b then [a] # utf8_chars [b, c]
      else if \<not> cont_byte c then [[a, b], [c]]
      else [[a, b, c]])"
| "utf8_chars (a # b # c # d # s) =
     (if \<not> cont_byte b then [a] # utf8_chars (b # c # d # s)
      else if \<not> cont_byte c then [a, b] # utf8_chars (c # d # s)
      else if \<not> cont_byte d then [a, b, c] # utf8_chars (d # s)
      else [a, b, c, d] # utf8_chars s)"

definition take_chars :: "nat \<Rightarrow> string \<Rightarrow> string" where
  "take_chars n s = concat (take n (utf8_chars s))"

text \<open>\<open>sep.join(xs)\<close>.\<close>

fun join :: "string \<Rightarrow> string list \<Rightarrow> string" where
  "join sep [] = []"
| "join sep [x] = x"
| "join sep (x # y # ys) = x @ sep @ join sep (y # ys)"

text \<open>\<open>s.replace(old, new)\<close>: the occurrences of \<open>old\<close> are found from the left and do not
  overlap. An empty \<open>old\<close> puts \<open>new\<close> before every character and at the end.\<close>

fun replace :: "string \<Rightarrow> string \<Rightarrow> string \<Rightarrow> string" where
  "replace old new s =
     (if old = [] then concat (map (\<lambda>c. new @ [c]) s) @ new
      else if s = [] then []
      else if prefix old s then new @ replace old new (drop (length old) s)
      else hd s # replace old new (tl s))"

declare replace.simps [simp del]

text \<open>\<open>m.get(k, d)\<close> on a dictionary.\<close>

definition dict_get :: "('k \<rightharpoonup> 'v) \<Rightarrow> 'k \<Rightarrow> 'v \<Rightarrow> 'v" where
  "dict_get m k d = (case m k of None \<Rightarrow> d | Some v \<Rightarrow> v)"

text \<open>A dictionary display \<open>{k1: v1, k2: v2, ...}\<close> stores its items from left to right, so
  a key written twice keeps the value written last.\<close>

definition dict_of_items :: "('k \<times> 'v) list \<Rightarrow> ('k \<rightharpoonup> 'v)" where
  "dict_of_items items = foldl (\<lambda>m (k, v). m(k \<mapsto> v)) Map.empty items"

subsection \<open>Integers and their decimal text\<close>

definition isdigit :: "char \<Rightarrow> bool" where
  "isdigit c = (c \<in> set ''0123456789'')"

definition digit_val :: "char \<Rightarrow> nat" where
  "digit_val c = of_char c - 48"

definition digit_char :: "nat \<Rightarrow> char" where
  "digit_char d =
     (if d = 0 then CHR ''0'' else if d = 1 then CHR ''1'' else if d = 2 then CHR ''2''
      else if d = 3 then CHR ''3'' else if d = 4 then CHR ''4'' else if d = 5 then CHR ''5''
      else if d = 6 then CHR ''6'' else if d = 7 then CHR ''7'' else if d = 8 then CHR ''8''
      else CHR ''9'')"

text \<open>The code point of a character given as its UTF-8 bytes.\<close>

definition tail_bits :: "char \<Rightarrow> nat" where
  "tail_bits c = of_char c - 0x80"

fun code_point :: "string \<Rightarrow> nat" where
  "code_point [a] = of_char a"
| "code_point [a, b] = (of_char a - 0xC0) * 64 + tail_bits b"
| "code_point [a, b, c] = ((of_char a - 0xE0) * 64 + tail_bits b) * 64 + tail_bits c"
| "code_point [a, b, c, d] =
     (((of_char a - 0xF0) * 64 + tail_bits b) * 64 + tail_bits c) * 64 + tail_bits d"
| "code_point _ = 0xFFFD"

text \<open>The decimal digits of Unicode come in runs of ten, from the digit zero on. These are
  the code points of the digits zero in the Unicode database of Python 3.11 (version
  14.0.0).\<close>

definition DECIMAL_ZEROS :: "nat list" where
  "DECIMAL_ZEROS =
     [0x30, 0x660, 0x6F0, 0x7C0, 0x966, 0x9E6, 0xA66, 0xAE6,
      0xB66, 0xBE6, 0xC66, 0xCE6, 0xD66, 0xDE6, 0xE50, 0xED0,
      0xF20, 0x1040, 0x1090, 0x17E0, 0x1810, 0x1946, 0x19D0, 0x1A80,
      0x1A90, 0x1B50, 0x1BB0, 0x1C40, 0x1C50, 0xA620, 0xA8D0, 0xA900,
      0xA9D0, 0xA9F0, 0xAA50, 0xABF0, 0xFF10, 0x104A0, 0x10D30, 0x11066,
      0x110F0, 0x11136, 0x111D0, 0x112F0, 0x11450, 0x114D0, 0x11650, 0x116C0,
      0x11730, 0x118E0, 0x11950, 0x11C50, 0x11D50, 0x11DA0, 0x16A60, 0x16AC0,
      0x16B50, 0x1D7CE, 0x1D7D8, 0x1D7E2, 0x1D7EC, 0x1D7F6, 0x1E140, 0x1E2F0,
      0x1E950, 0x1FBF0]"

definition decimal :: "nat \<Rightarrow> nat option" where
  "decimal cp = map_option (\<lambda>z. cp - z) (find (\<lambda>z. z \<le> cp \<and> cp < z + 10) DECIMAL_ZEROS)"

text \<open>The white space beyond ASCII, as code points.\<close>

definition WIDE_SPACES :: "nat list" where
  "WIDE_SPACES =
     [0x85, 0xA0, 0x1680, 0x2000, 0x2001, 0x2002, 0x2003, 0x2004, 0x2005, 0x2006, 0x2007,
      0x2008, 0x2009, 0x200A, 0x2028, 0x2029, 0x202F, 0x205F, 0x3000]"

text \<open>
  \<open>int(s)\<close> first writes the text in ASCII: an ASCII character stays, a white space beyond
  ASCII becomes a blank, a decimal digit of any script becomes its ASCII digit, and any
  other character is an error.
\<close>

definition ascii_of_char :: "string \<Rightarrow> char option" where
  "ascii_of_char g =
     (case g of
        [a] \<Rightarrow> if (of_char a :: nat) < 0x80 then Some a else None
      | _ \<Rightarrow> if code_point g \<in> set WIDE_SPACES then Some (CHR '' '')
             else map_option digit_char (decimal (code_point g)))"

definition int_ascii :: "string \<Rightarrow> string option" where
  "int_ascii s = those (map ascii_of_char (utf8_chars s))"

text \<open>Then the ASCII text is read: white space of C (\<open>isspace\<close>: the blank and U+0009 to
  U+000D, not U+001C to U+001F) around an optional sign and the digits, where single
  underscores may stand between digits.\<close>

definition c_isspace :: "char \<Rightarrow> bool" where
  "c_isspace c = (c \<in> set [CHR 0x09, CHR 0x0A, CHR 0x0B, CHR 0x0C, CHR 0x0D, CHR 0x20])"

definition c_strip :: "string \<Rightarrow> string" where
  "c_strip s = rev (dropWhile c_isspace (rev (dropWhile c_isspace s)))"

fun parse_digits :: "nat \<Rightarrow> string \<Rightarrow> nat option" where
  "parse_digits acc [] = Some acc"
| "parse_digits acc [c] = (if isdigit c then Some (acc * 10 + digit_val c) else None)"
| "parse_digits acc (c # d # ds) =
     (if isdigit c then parse_digits (acc * 10 + digit_val c) (d # ds)
      else if c = CHR ''_'' \<and> isdigit d then parse_digits (acc * 10 + digit_val d) ds
      else None)"

definition parse_unsigned :: "string \<Rightarrow> nat option" where
  "parse_unsigned s =
     (case s of [] \<Rightarrow> None
      | c # cs \<Rightarrow> if isdigit c then parse_digits (digit_val c) cs else None)"

definition parse_int :: "string \<Rightarrow> int option" where
  "parse_int t =
     (case c_strip t of [] \<Rightarrow> None
      | c # cs \<Rightarrow>
          if c = CHR ''-'' then map_option (\<lambda>n. - int n) (parse_unsigned cs)
          else if c = CHR ''+'' then map_option int (parse_unsigned cs)
          else map_option int (parse_unsigned (c # cs)))"

text \<open>\<open>int(s)\<close> in base ten; \<open>None\<close> is the \<open>ValueError\<close>. (The interpreter's limit on the
  number of digits, 4300 unless it is set otherwise, is left out.)\<close>

definition py_int :: "string \<Rightarrow> int option" where
  "py_int s = (case int_ascii s of None \<Rightarrow> None | Some t \<Rightarrow> parse_int t)"

fun str_nat :: "nat \<Rightarrow> string" where
  "str_nat n = (if n < 10 then [digit_char n] else str_nat (n div 10) @ [digit_char (n mod 10)])"

declare str_nat.simps [simp del]

text \<open>\<open>str(i)\<close> of an integer.\<close>

definition str_int :: "int \<Rightarrow> string" where
  "str_int i = (if i < 0 then CHR ''-'' # str_nat (nat (- i)) else str_nat (nat i))"

section \<open>The bibliography converter (bibtex2html.py)\<close>

subsection \<open>Journal names\<close>

definition JOURNAL_ITEMS :: "(string \<times> string) list" where
  "JOURNAL_ITEMS =
     [(bs # ''pasj'', ''Publications of the Astronomical Society of Japan''),
      (bs # ''nat'', ''Nature''),
      (bs # ''icarus'', ''Icarus''),
      (bs # ''aj'', ''Astronomical Journal''),
      (bs # ''apj'', ''Astrophysical Journal''),
      (bs # ''apjl'', ''ApJL''),
      (bs # ''apjs'', ''ApJS''),
      (bs # ''pasp'', ''PASP''),
      (bs # ''mnras'', ''MNRAS''),
      (bs # ''aap'', ''A&A''),
      (bs # ''grl'', ''GRL''),
      (bs # ''psj'', ''PSJ''),
      (bs # ''araa'', ''ARAA''),
      (bs # ''gca'', ''GCA''),
      (bs # ''aap'', ''Astronomy & Astrophysics'')]"

definition JOURNAL_MAP :: "string \<rightharpoonup> string" where
  "JOURNAL_MAP = dict_of_items JOURNAL_ITEMS"

definition normalize_journal :: "string \<Rightarrow> string" where
  "normalize_journal journal0 = (let journal = strip journal0 in dict_get JOURNAL_MAP journal journal)"

subsection \<open>Accents\<close>

text \<open>The accented letters are written as their UTF-8 bytes.\<close>

definition LATEX_ACCENTS :: "(string \<times> string) list" where
  "LATEX_ACCENTS =
     [([bs, CHR 0x22, CHR ''a''], [CHR 0xC3, CHR 0xA4]),
      ([bs, CHR 0x22, CHR ''o''], [CHR 0xC3, CHR 0xB6]),
      ([bs, CHR 0x22, CHR ''u''], [CHR 0xC3, CHR 0xBC]),
      ([bs, CHR 0x22, CHR ''A''], [CHR 0xC3, CHR 0x84]),
      ([bs, CHR 0x22, CHR ''O''], [CHR 0xC3, CHR 0x96]),
      ([bs, CHR 0x22, CHR ''U''], [CHR 0xC3, CHR 0x9C]),
      ([bs, CHR 0x27, CHR ''a''], [CHR 0xC3, CHR 0xA1]),
      ([bs, CHR 0x27, CHR ''e''], [CHR 0xC3, CHR 0xA9]),
      ([bs, CHR 0x27, CHR ''i''], [CHR 0xC3, CHR 0xAD]),
      ([bs, CHR 0x27, CHR ''o''], [CHR 0xC3, CHR 0xB3]),
      ([bs, CHR 0x27, CHR ''u''], [CHR 0xC3, CHR 0xBA]),
      ([bs, CHR 0x60, CHR ''a''], [CHR 0xC3, CHR 0xA0]),
      ([bs, CHR 0x60, CHR ''e''], [CHR 0xC3, CHR 0xA8]),
      ([bs, CHR 0x60, CHR ''i''], [CHR 0xC3, CHR 0xAC]),
      ([bs, CHR 0x60, CHR ''o''], [CHR 0xC3, CHR 0xB2]),
      ([bs, CHR 0x60, CHR ''u''], [CHR 0xC3, CHR 0xB9]),
      ([bs, CHR 0x7E, CHR ''n''], [CHR 0xC3, CHR 0xB1]),
      ([bs, CHR ''s'', CHR ''s''], [CHR 0xC3, CHR 0x9F]),
      ([bs, CHR 0x5E, CHR ''a''], [CHR 0xC3, CHR 0xA2]),
      ([bs, CHR 0x5E, CHR ''e''], [CHR 0xC3, CHR 0xAA]),
      ([bs, CHR 0x5E, CHR ''i''], [CHR 0xC3, CHR 0xAE]),
      ([bs, CHR 0x5E, CHR ''o''], [CHR 0xC3, CHR 0xB4]),
      ([bs, CHR 0x5E, CHR ''u''], [CHR 0xC3, CHR 0xBB])]"

definition latex_to_unicode :: "string \<Rightarrow> string" where
  "latex_to_unicode text0 =
     (let text = foldl (\<lambda>t (latex_seq, char). replace latex_seq char t) text0 LATEX_ACCENTS
      in replace ''}'' '''' (replace ''{'' '''' text))"

subsection \<open>Entries and table rows\<close>

text \<open>
  An entry as \<open>pybtex\<close> hands it over: \<open>entry.fields\<close> maps a field name to its text,
  \<open>entry.persons\<close> maps a role to the list of \<open>str(person)\<close> of its persons. A bibliography file is the
  list of its entries, in the order of \<open>bib_data.entries.values()\<close>; a file that
  \<open>parse_file\<close> rejects ends the run before this code is reached.
\<close>

record entry =
  entry_fields :: "string \<rightharpoonup> string"
  entry_persons :: "string \<rightharpoonup> string list"

definition year_int :: "entry \<Rightarrow> int" where
  "year_int e =
     (let year_str = dict_get (entry_fields e) ''year'' ''9999''
      in case py_int year_str of Some y \<Rightarrow> y | None \<Rightarrow> 9999)"

definition all_entries :: "entry list list \<Rightarrow> (int \<times> entry) list" where
  "all_entries bib_files = map (\<lambda>e. (year_int e, e)) (concat bib_files)"

text \<open>\<open>all_entries.sort(key=lambda x: x[0])\<close>; Python's sort is stable, and so is \<open>sort_key\<close>.\<close>

definition sorted_entries :: "entry list list \<Rightarrow> (int \<times> entry) list" where
  "sorted_entries bib_files = sort_key fst (all_entries bib_files)"

definition authors_list :: "entry \<Rightarrow> string list" where
  "authors_list e = map latex_to_unicode (dict_get (entry_persons e) ''author'' [])"

definition authors_html :: "bool \<Rightarrow> entry \<Rightarrow> string" where
  "authors_html first_author_table e =
     (let al = authors_list e in
      if first_author_table \<and> al \<noteq> [] then
        (let al' = al[0 := ''<b>'' @ al ! 0 @ ''</b>''] in
         if length al' > 3 then join '', '' (take 3 al') @ '', et al.''
         else if al' \<noteq> [] then join '', '' al' else ''Unknown'')
      else if al \<noteq> [] then join '', '' al else ''Unknown'')"

definition title :: "entry \<Rightarrow> string" where
  "title e = latex_to_unicode (dict_get (entry_fields e) ''title'' ''No title'')"

definition url :: "entry \<Rightarrow> string" where
  "url e =
     (let doi = dict_get (entry_fields e) ''doi'' ''''
      in if doi \<noteq> [] then ''https://doi.org/'' @ doi else dict_get (entry_fields e) ''url'' ''#'')"

definition title_html :: "entry \<Rightarrow> string" where
  \<open>title_html e = ''<a href="'' @ url e @ ''" target="_blank">'' @ title e @ ''</a>''\<close>

definition journal_info :: "int \<Rightarrow> entry \<Rightarrow> string" where
  "journal_info year e =
     (let raw_journal = dict_get (entry_fields e) ''journal'' '''';
          journal = normalize_journal raw_journal;
          volume = dict_get (entry_fields e) ''volume'' '''';
          pages = dict_get (entry_fields e) ''pages'' ''''
      in join '', '' (filter (\<lambda>s. s \<noteq> []) [journal, volume, pages, str_int year]))"

definition row_html :: "bool \<Rightarrow> nat \<Rightarrow> int \<Rightarrow> entry \<Rightarrow> string" where
  \<open>row_html first_author_table i year e = concat
     [''        <tr>\<newline>'',
      ''          <td>'', str_int (int i), ''</td>\<newline>'',
      ''          <td class='authors'>'', authors_html first_author_table e, ''</td>\<newline>'',
      ''          <td>'', title_html e, ''</td>\<newline>'',
      ''          <td>'', journal_info year e, ''</td>\<newline>'',
      ''        </tr>'']\<close>

definition bib_to_table_rows :: "entry list list \<Rightarrow> bool \<Rightarrow> string list" where
  "bib_to_table_rows bib_files first_author_table =
     map (\<lambda>(i, (year, e)). row_html first_author_table i year e)
       (enumerate 1 (sorted_entries bib_files))"

definition generate_table :: "string \<Rightarrow> entry list list \<Rightarrow> bool \<Rightarrow> string" where
  \<open>generate_table heading bib_files first_author_table =
     (if bib_files = [] then ''''
      else concat
        [''      <h1>'', heading, ''</h1>\<newline>'',
         ''      <hr>\<newline>'',
         ''      <table class="pub-list">\<newline>'',
         ''        <tr>\<newline>'',
         ''          <th>#</th>\<newline>'',
         ''          <th>Authors</th>\<newline>'',
         ''          <th>Title</th>\<newline>'',
         ''          <th>Journal / Year</th>\<newline>'',
         ''        </tr>\<newline>'',
         join ''\<newline>'' (bib_to_table_rows bib_files first_author_table), ''\<newline>'',
         ''      </table>\<newline>''])\<close>

text \<open>\<open>HTML_TEMPLATE.format(tables=tables)\<close>: the text of the template before and after the
  field \<open>{tables}\<close>, with \<open>{{\<close> and \<open>}}\<close> read as braces.\<close>

definition BIB_TEMPLATE_0 :: string where
  \<open>BIB_TEMPLATE_0 = concat
     [''<!DOCTYPE html>\<newline>'',
      ''<html lang="en">\<newline>'',
      ''  <head>\<newline>'',
      ''    <!-- Global site tag (gtag.js) - Google Analytics -->\<newline>'',
      ''    <script async src="https://www.googletagmanager.com/gtag/js?id=UA-143048532-1"></script>\<newline>'',
      ''    <script>\<newline>'',
      ''    window.dataLayer = window.dataLayer || [];\<newline>'',
      ''    function gtag(){dataLayer.push(arguments);}\<newline>'',
      ''    gtag('js', new Date());\<newline>'',
      ''    gtag('config', 'UA-143048532-1');\<newline>'',
      ''    </script> \<newline>'',
      ''    <meta charset="utf-8">\<newline>'',
      ''    <link rel="icon" type="image/x-icon" href="fig/favicon.ico">\<newline>'',
      ''    <link rel="stylesheet" href="common/css/beni.css">\<newline>'',
      ''    <title>Publications</title>\<newline>'',
      ''    <style>\<newline>'',
      ''      table.pub-list {\<newline>'',
      ''        border-collapse: collapse;\<newline>'',
      ''        width: 100%;\<newline>'',
      ''      }\<newline>'',
      ''      table.pub-list th, table.pub-list td {\<newline>'',
      ''        border: 1px solid #ddd;\<newline>'',
      ''        padding: 8px;\<newline>'',
      ''        vertical-align: top;\<newline>'',
      ''      }\<newline>'',
      ''      table.pub-list th {\<newline>'',
      ''        background-color: #f2f2f2;\<newline>'',
      ''        text-align: left;\<newline>'',
      ''      }\<newline>'',
      ''      .authors {\<newline>'',
      ''        white-space: pre-line;\<newline>'',
      ''      }\<newline>'',
      ''    </style>\<newline>'',
      ''  </head>\<newline>'',
      ''  <body>\<newline>'',
      ''    <div id="page">\<newline>'']\<close>

definition BIB_TEMPLATE_1 :: string where
  \<open>BIB_TEMPLATE_1 = concat
     [''\<newline>'',
      ''\<newline>'',
      ''      <h1>Links</h1>\<newline>'',
      ''      <hr>\<newline>'',
      ''      <ul>\<newline>'',
      ''        <li><a href="index.html">Back to home</a></li>\<newline>'',
      ''      </ul>\<newline>'',
      ''\<newline>'',
      ''      <footer id="pageFoot">\<newline>'',
      ''        <p id="copyright"><small>Copyright &copy; Jin BENIYAMA</small></p>\<newline>'',
      ''      </footer>\<newline>'',
      ''    </div>\<newline>'',
      ''  </body>\<newline>'',
      ''</html>\<newline>'']\<close>

definition bib_HTML_TEMPLATE :: "string \<Rightarrow> string" where
  "bib_HTML_TEMPLATE tables = BIB_TEMPLATE_0 @ tables @ BIB_TEMPLATE_1"

text \<open>
  One run of the script. \<open>first\<close> and \<open>Nth\<close> are the parsed files of the two options
  (\<open>None\<close> when the option is not given). The result is the text written to
  \<open>output_html\<close>.
\<close>

record bib_run =
  first :: "entry list list option"
  Nth :: "entry list list option"

definition bib_main :: "bib_run \<Rightarrow> string" where
  "bib_main r =
     (let tables = '''';
          tables = (case first r of
                      Some fs \<Rightarrow> if fs \<noteq> [] then tables @ generate_table ''Refereed Articles (First author)'' fs True else tables
                    | None \<Rightarrow> tables);
          tables = (case Nth r of
                      Some fs \<Rightarrow> if fs \<noteq> [] then tables @ generate_table ''Refereed Articles (Nth author)'' fs False else tables
                    | None \<Rightarrow> tables)
      in bib_HTML_TEMPLATE tables)"

text \<open>The year an entry states: \<open>None\<close> when the field is missing or \<open>int\<close> rejects it.\<close>

definition parsed_year :: "entry \<Rightarrow> int option" where
  "parsed_year e = (case entry_fields e ''year'' of None \<Rightarrow> None | Some s \<Rightarrow> py_int s)"

subsection \<open>Example entries\<close>

definition ex_no_year :: entry where
  "ex_no_year = \<lparr>entry_fields = Map.empty, entry_persons = Map.empty\<rparr>"

definition ex_year_10000 :: entry where
  "ex_year_10000 = \<lparr>entry_fields = [''year'' \<mapsto> ''10000''], entry_persons = Map.empty\<rparr>"

definition ex_paper :: entry where
  "ex_paper = \<lparr>entry_fields = [''journal'' \<mapsto> bs # ''apj'', ''volume'' \<mapsto> ''933'', ''year'' \<mapsto> ''2022''],
     entry_persons = Map.empty\<rparr>"

definition ex_year_2020 :: entry where
  "ex_year_2020 = \<lparr>entry_fields = [''year'' \<mapsto> ''2020''], entry_persons = Map.empty\<rparr>"

definition ex_et_al :: entry where
  "ex_et_al = \<lparr>entry_fields = Map.empty, entry_persons = [''author'' \<mapsto> [''{et al.}'']]\<rparr>"

definition ex_two_authors :: entry where
  "ex_two_authors = \<lparr>entry_fields = Map.empty, entry_persons = [''author'' \<mapsto> [''Beniyama, Jin'', ''Sako, Shigeyuki'']]\<rparr>"

definition ex_four_authors :: entry where
  "ex_four_authors = \<lparr>entry_fields = Map.empty,
     entry_persons = [''author'' \<mapsto> [''Beniyama, Jin'', ''Sako, Shigeyuki'', ''Ohsawa, Ryou'', ''Takita, Satoshi'']]\<rparr>"

definition ex_empty_doi :: entry where
  "ex_empty_doi = \<lparr>entry_fields = [''doi'' \<mapsto> '''', ''url'' \<mapsto> ''https://example.org/paper''], entry_persons = Map.empty\<rparr>"

definition ex_doi_url :: entry where
  "ex_doi_url = \<lparr>entry_fields = [''doi'' \<mapsto> ''10.1093/pasj/psac043'', ''url'' \<mapsto> ''https://example.org/paper''], entry_persons = Map.empty\<rparr>"

section \<open>The presentation converter (presentation_html.py)\<close>

text \<open>
  Python compiles a file as a whole before it runs any of it. Line 167 of the file, in the
  body of \<open>plot_yearly_counts_scatter\<close>, is the call \<open>plt.plot(all_years, total_vals, ...)\<close>
  followed on the same line by a blank and the character U+30FC. A call standing on a line is
  a statement when only blanks and a comment follow its closing parenthesis; U+30FC is a
  letter, read as a name, and a name cannot follow a call. So the file does not compile:
  running it, or importing it, raises \<open>SyntaxError\<close> before any of its functions exists.
  The functions below are the bodies as the file writes them; \<open>in_module\<close> is what
  evaluating them in the file as shipped gives. The drawing itself (\<open>matplotlib\<close>) is
  outside the model.
\<close>

datatype py_error = SyntaxError

text \<open>The text of line 167 after the closing parenthesis of the call.\<close>

definition LINE_167_REST :: string where
  "LINE_167_REST = [CHR 0x20, CHR 0xE3, CHR 0x83, CHR 0xBC]"

definition ends_statement :: "string \<Rightarrow> bool" where
  "ends_statement rest =
     (case dropWhile (\<lambda>c. c = CHR 0x20 \<or> c = CHR 0x09 \<or> c = CHR 0x0C) rest of
        [] \<Rightarrow> True
      | c # _ \<Rightarrow> c = CHR ''#'')"

definition module_compiles :: bool where
  "module_compiles = ends_statement LINE_167_REST"

definition in_module :: "'a \<Rightarrow> py_error + 'a" where
  "in_module v = (if module_compiles then Inr v else Inl SyntaxError)"

subsection \<open>Reading the log\<close>

definition LF :: char where
  "LF = CHR 0x0A"

definition CR :: char where
  "CR = CHR 0x0D"

text \<open>\<open>for line in f\<close> on a file opened in text mode: a line ends at \<open>\n\<close>, \<open>\r\n\<close> or
  \<open>\r\<close>, each handed over as \<open>\n\<close>; the last line may have no end.\<close>

fun readlines_from :: "string \<Rightarrow> string \<Rightarrow> string list" where
  "readlines_from cur [] = (if cur = [] then [] else [cur])"
| "readlines_from cur [c] = (if c = CR \<or> c = LF then [cur @ [LF]] else [cur @ [c]])"
| "readlines_from cur (c # d # ds) =
     (if c = CR \<and> d = LF then (cur @ [LF]) # readlines_from [] ds
      else if c = CR \<or> c = LF then (cur @ [LF]) # readlines_from [] (d # ds)
      else readlines_from (cur @ [c]) (d # ds))"

definition readlines :: "string \<Rightarrow> string list" where
  "readlines content = readlines_from [] content"

text \<open>A record is a Python \<open>dict\<close>: the keys in the order of their first insertion, a
  later value for a key taking the place of the earlier one (\<open>AList.update\<close>).\<close>

type_synonym pres = "(string \<times> string) list"

definition pres_get :: "pres \<Rightarrow> string \<Rightarrow> string \<Rightarrow> string" where
  "pres_get e k d = dict_get (map_of e) k d"

text \<open>\<open>key, val = line.split(':', 1)\<close> on a line that contains a colon.\<close>

definition split_colon :: "string \<Rightarrow> string \<times> string" where
  "split_colon line =
     (takeWhile (\<lambda>c. c \<noteq> CHR '':'') line, tl (dropWhile (\<lambda>c. c \<noteq> CHR '':'') line))"

text \<open>The loop of \<open>parse_txt_file\<close> over the lines, on the pair of \<open>entries\<close> and
  \<open>current\<close>.\<close>

fun parse_loop :: "pres list \<Rightarrow> pres \<Rightarrow> string list \<Rightarrow> pres list \<times> pres" where
  "parse_loop entries current [] = (entries, current)"
| "parse_loop entries current (l # ls) =
     (let line = strip l in
      if line = [] then
        (if current \<noteq> [] then parse_loop (entries @ [current]) [] ls
         else parse_loop entries current ls)
      else if CHR '':'' \<notin> set line then parse_loop entries current ls
      else (case split_colon line of
              (key, val) \<Rightarrow> parse_loop entries (AList.update (strip key) (strip val) current) ls))"

definition parse_lines :: "string list \<Rightarrow> pres list" where
  "parse_lines ls =
     (case parse_loop [] [] ls of
        (entries, current) \<Rightarrow> if current \<noteq> [] then entries @ [current] else entries)"

definition parse_txt_file :: "string \<Rightarrow> pres list" where
  "parse_txt_file content = parse_lines (readlines content)"

subsection \<open>The tables\<close>

definition pres_row_html :: "nat \<Rightarrow> pres \<Rightarrow> string" where
  \<open>pres_row_html i e =
     (let presenters = pres_get e ''Presenters'' ''Unknown'';
          title_val = pres_get e ''Title'' ''No title'';
          event = pres_get e ''Event'' '''';
          location = pres_get e ''Location'' '''';
          dates = pres_get e ''Dates'' '''';
          type_val = pres_get e ''Type'' '''';
          url = strip (pres_get e ''URL'' '''');
          memo = pres_get e ''Memo'' '''';
          title_html = (if url \<noteq> [] then ''<a href="'' @ url @ ''" target="_blank">'' @ title_val @ ''</a>''
                        else title_val)
      in concat
        [''        <tr>\<newline>'',
         ''          <td>'', str_int (int i), ''</td>\<newline>'',
         ''          <td class='authors'>'', presenters, ''</td>\<newline>'',
         ''          <td>'', title_html, ''</td>\<newline>'',
         ''          <td>'', event, ''</td>\<newline>'',
         ''          <td>'', location, ''</td>\<newline>'',
         ''          <td>'', dates, ''</td>\<newline>'',
         ''          <td>'', type_val, ''</td>\<newline>'',
         ''          <td>'', memo, ''</td>\<newline>'',
         ''        </tr>''])\<close>

definition table_rows :: "pres list \<Rightarrow> string list" where
  "table_rows entries = map (\<lambda>(i, e). pres_row_html i e) (enumerate 1 entries)"

definition make_table_html :: "pres list \<Rightarrow> string \<Rightarrow> string" where
  \<open>make_table_html entries heading = concat
     [''      <h1>'', heading, ''</h1>\<newline>'',
      ''      <hr>\<newline>'',
      ''      <table class="pub-list">\<newline>'',
      ''        <tr>\<newline>'',
      ''          <th>#</th>\<newline>'',
      ''          <th>Presenters</th>\<newline>'',
      ''          <th>Title</th>\<newline>'',
      ''          <th>Event</th>\<newline>'',
      ''          <th>Location</th>\<newline>'',
      ''          <th>Dates</th>\<newline>'',
      ''          <th>Type</th>\<newline>'',
      ''          <th>Memo</th>\<newline>'',
      ''        </tr>\<newline>'',
      join ''\<newline>'' (table_rows entries), ''\<newline>'',
      ''      </table>\<newline>'']\<close>

subsection \<open>Counting per year\<close>

definition EN_DASH :: string where
  "EN_DASH = [CHR 0xE2, CHR 0x80, CHR 0x93]"

text \<open>\<open>re.split(r'[;\<dots>]', dates)[0]\<close>, the class holding the semicolon and the en-dash: the
  text before the first of them, all of it when there is none.\<close>

fun before_sep :: "string \<Rightarrow> string" where
  "before_sep [] = []"
| "before_sep (c # cs) =
     (if c = CHR '';'' \<or> prefix EN_DASH (c # cs) then [] else c # before_sep cs)"

definition start_date :: "string \<Rightarrow> string" where
  "start_date dates = strip (before_sep dates)"

text \<open>\<open>int(start_date[:4])\<close> of a record, \<open>None\<close> when the record has no dates or \<open>int\<close>
  raises \<open>ValueError\<close>.\<close>

definition start_year :: "pres \<Rightarrow> int option" where
  "start_year e =
     (let dates = pres_get e ''Dates'' ''''
      in if dates \<noteq> [] then py_int (take_chars 4 (start_date dates)) else None)"

text \<open>A \<open>Counter\<close>: a missing key counts as 0.\<close>

definition counter_get :: "(int \<rightharpoonup> nat) \<Rightarrow> int \<Rightarrow> nat" where
  "counter_get counts y = (case counts y of None \<Rightarrow> 0 | Some n \<Rightarrow> n)"

fun count_loop :: "(int \<rightharpoonup> nat) \<Rightarrow> pres list \<Rightarrow> (int \<rightharpoonup> nat)" where
  "count_loop counts [] = counts"
| "count_loop counts (e # es) =
     (case start_year e of
        Some year \<Rightarrow> count_loop (counts(year \<mapsto> counter_get counts year + 1)) es
      | None \<Rightarrow> count_loop counts es)"

text \<open>\<open>count_per_year\<close> is defined in the body of \<open>plot_yearly_counts_scatter\<close>, in the
  file as shipped.\<close>

definition count_per_year :: "pres list \<Rightarrow> py_error + (int \<rightharpoonup> nat)" where
  "count_per_year entries = in_module (count_loop Map.empty entries)"

subsection \<open>The page\<close>

text \<open>\<open>HTML_TEMPLATE.format(last_update=..., fig_file=..., tables=...)\<close>: the four pieces of
  the template around its three fields.\<close>

definition PRES_TEMPLATE_0 :: string where
  \<open>PRES_TEMPLATE_0 = concat
     [''<!DOCTYPE html>\<newline>'',
      ''<html lang="en">\<newline>'',
      ''  <head>\<newline>'',
      ''    <meta charset="utf-8">\<newline>'',
      ''    <link rel="icon" type="image/x-icon" href="fig/favicon.ico">\<newline>'',
      ''    <link rel="stylesheet" href="common/css/beni.css">\<newline>'',
      ''    <title>Presentations</title>\<newline>'',
      ''    <style>\<newline>'',
      ''      table.pub-list {\<newline>'',
      ''        border-collapse: collapse;\<newline>'',
      ''        width: 100%;\<newline>'',
      ''      }\<newline>'',
      ''      table.pub-list th, table.pub-list td {\<newline>'',
      ''        border: 1px solid #ddd;\<newline>'',
      ''        padding: 8px;\<newline>'',
      ''        vertical-align: top;\<newline>'',
      ''      }\<newline>'',
      ''      table.pub-list th {\<newline>'',
      ''        background-color: #f2f2f2;\<newline>'',
      ''        text-align: left;\<newline>'',
      ''      }\<newline>'',
      ''      .authors {\<newline>'',
      ''        white-space: pre-line;\<newline>'',
      ''      }\<newline>'',
      ''    </style>\<newline>'',
      ''  </head>\<newline>'',
      ''  <body>\<newline>'',
      ''    <div id="page">\<newline>'',
      ''  These are list of my presentations. Last updated on '']\<close>

definition PRES_TEMPLATE_1 :: string where
  \<open>PRES_TEMPLATE_1 = concat
     ['' \<newline>'',
      ''  <img src="'']\<close>

definition PRES_TEMPLATE_2 :: string where
  \<open>PRES_TEMPLATE_2 = concat
     [''" alt="Presentations per Year" style="max-width:100%;height:auto;">\<newline>'',
      ''\<newline>'']\<close>

definition PRES_TEMPLATE_3 :: string where
  \<open>PRES_TEMPLATE_3 = concat
     [''\<newline>'',
      ''\<newline>'',
      ''      <h1>Links</h1>\<newline>'',
      ''      <hr>\<newline>'',
      ''      <ul>\<newline>'',
      ''        <li><a href="index.html">Back to home</a></li>\<newline>'',
      ''      </ul>\<newline>'',
      ''\<newline>'',
      ''      <footer id="pageFoot">\<newline>'',
      ''        <p id="copyright"><small>Copyright &copy; Jin BENIYAMA</small></p>\<newline>'',
      ''      </footer>\<newline>'',
      ''    </div>\<newline>'',
      ''  </body>\<newline>'',
      ''</html>\<newline>'']\<close>

text \<open>\<open>format\<close> writes a field with \<open>str\<close>: the absent option \<open>--fig\<close> is \<open>None\<close> and is
  written as the text "None".\<close>

definition str_option :: "string option \<Rightarrow> string" where
  "str_option v = (case v of None \<Rightarrow> ''None'' | Some s \<Rightarrow> s)"

definition pres_HTML_TEMPLATE :: "string \<Rightarrow> string option \<Rightarrow> string \<Rightarrow> string" where
  "pres_HTML_TEMPLATE last_update fig_file tables =
     PRES_TEMPLATE_0 @ last_update @ PRES_TEMPLATE_1 @ str_option fig_file @ PRES_TEMPLATE_2
       @ tables @ PRES_TEMPLATE_3"

text \<open>
  One run of the script: \<open>now\<close> is the text of \<open>datetime.datetime.now()\<close> as
  \<open>%Y-%m-%d\<close>, \<open>domestic\<close> and \<open>international\<close> are the contents of the two logs, \<open>fig\<close>
  is the option \<open>--fig\<close>. \<open>main_page\<close> is the text that the body of \<open>main\<close> writes to
  \<open>output_html\<close>; \<open>pres_main\<close> is the run of the file as shipped.
\<close>

record pres_run =
  now :: string
  domestic :: string
  international :: string
  fig :: "string option"

definition main_page :: "pres_run \<Rightarrow> string" where
  "main_page r =
     (let domestic_entries = parse_txt_file (domestic r);
          international_entries = parse_txt_file (international r);
          tables_html = '''';
          tables_html = tables_html @ make_table_html domestic_entries ''Domestic Presentations'';
          tables_html = tables_html @ make_table_html international_entries ''International Presentations''
      in pres_HTML_TEMPLATE (now r) (fig r) tables_html)"

definition pres_main :: "pres_run \<Rightarrow> py_error + string" where
  "pres_main r = in_module (main_page r)"

subsection \<open>The log format as the specification words it\<close>

text \<open>
  For comparison with \<open>parse_txt_file\<close>: the lines are cut into blocks at the blank lines;
  within a block every line with a colon gives the field named by the trimmed text before
  its first colon the trimmed text after it, and a line without a colon gives nothing; a
  block that yields no field is no record. The last block needs no blank line after it.
\<close>

definition field_step :: "pres \<Rightarrow> string \<Rightarrow> pres" where
  "field_step cur l =
     (let line = strip l in
      if CHR '':'' \<in> set line
      then AList.update (strip (takeWhile (\<lambda>c. c \<noteq> CHR '':'') line))
             (strip (tl (dropWhile (\<lambda>c. c \<noteq> CHR '':'') line))) cur
      else cur)"

definition record_of_block :: "string list \<Rightarrow> pres" where
  "record_of_block b = foldl field_step [] b"

fun split_blocks :: "string list \<Rightarrow> string list \<Rightarrow> string list list" where
  "split_blocks cur [] = [cur]"
| "split_blocks cur (l # ls) =
     (if strip l = [] then cur # split_blocks [] ls else split_blocks (cur @ [l]) ls)"

definition spec_parse :: "string list \<Rightarrow> pres list" where
  "spec_parse ls = filter (\<lambda>r. r \<noteq> []) (map record_of_block (split_blocks [] ls))"

text \<open>What \<open>parse_txt_file\<close> does after its loop.\<close>

definition finish :: "pres list \<times> pres \<Rightarrow> pres list" where
  "finish p = (case p of (entries, current) \<Rightarrow> if current \<noteq> [] then entries @ [current] else entries)"

subsection \<open>Example records and runs\<close>

definition ex_talk_2023 :: pres where
  "ex_talk_2023 = [(''Title'', ''A''), (''Dates'', ''2023-04-10; 2023-04-12'')]"

definition ex_pres_run :: pres_run where
  "ex_pres_run = \<lparr>now = ''2025-01-01'', domestic = ''Title: A'', international = [], fig = None\<rparr>"

text \<open>The image element of the page template, for a given source.\<close>

definition IMG :: "string \<Rightarrow> string" where
  \<open>IMG src = ''<img src="'' @ src @ ''" alt="Presentations per Year" style="max-width:100%;height:auto;">''\<close>

section \<open>Properties\<close>

subsection \<open>The string functions on some texts\<close>

text \<open>
  White space beyond ASCII is trimmed by \<open>strip\<close>, and U+001C as well; \<open>int\<close> does not
  accept U+001C, and reads white space and decimal digits beyond ASCII; \<open>s[:n]\<close> counts
  characters; a line that holds only U+3000 is a blank line of the log.
\<close>

lemma strip_wide_space: "strip ([CHR 0xE3, CHR 0x80, CHR 0x80] @ ''A '' @ [CHR 0x1C, CHR 0xC2, CHR 0xA0]) = ''A''"
  by (simp add: strip_def lstrip_def rstrip_def WHITESPACE_def)

lemma py_int_file_separator: "py_int (''202'' @ [CHR 0x1C]) = None"
  by (simp add: py_int_def int_ascii_def ascii_of_char_def cont_byte_def parse_int_def c_strip_def
      c_isspace_def parse_unsigned_def isdigit_def digit_val_def)

lemma py_int_fullwidth:
  "py_int [CHR 0xE3, CHR 0x80, CHR 0x80, CHR 0xEF, CHR 0xBC, CHR 0x92, CHR ''0'', CHR 0xEF, CHR 0xBC, CHR 0x92,
     CHR 0xEF, CHR 0xBC, CHR 0x93] = Some 2023"
  by (simp add: py_int_def int_ascii_def ascii_of_char_def cont_byte_def parse_int_def c_strip_def
      c_isspace_def parse_unsigned_def isdigit_def digit_val_def tail_bits_def WIDE_SPACES_def
      decimal_def DECIMAL_ZEROS_def digit_char_def)

lemma take_chars_fullwidth:
  "take_chars 2 [CHR 0xEF, CHR 0xBC, CHR 0x92, CHR ''0'', CHR 0xEF, CHR 0xBC, CHR 0x93] =
     [CHR 0xEF, CHR 0xBC, CHR 0x92, CHR ''0'']"
  by (simp add: take_chars_def cont_byte_def)

lemma parse_wide_blank_line:
  "parse_txt_file (''Title: A'' @ [LF] @ [CHR 0xE3, CHR 0x80, CHR 0x80] @ [LF] @ ''Title: B'') =
     [[(''Title'', ''A'')], [(''Title'', ''B'')]]"
  by (simp add: parse_txt_file_def parse_lines_def readlines_def LF_def CR_def split_colon_def
        strip_def lstrip_def rstrip_def WHITESPACE_def)

subsection \<open>Journal names\<close>

lemma JOURNAL_MAP_apj: "JOURNAL_MAP (bs # ''apj'') = Some ''Astrophysical Journal''"
  by (simp add: JOURNAL_MAP_def JOURNAL_ITEMS_def dict_of_items_def bs_def)

lemma JOURNAL_MAP_aap: "JOURNAL_MAP (bs # ''aap'') = Some ''Astronomy & Astrophysics''"
  by (simp add: JOURNAL_MAP_def JOURNAL_ITEMS_def dict_of_items_def bs_def)

text \<open>
  Claim C4. \<open>normalize_journal\<close> sends the macro \<open>\apj\<close> to "Astrophysical Journal", sends
  the macro \<open>\aap\<close>, which the table defines twice, to its second definition
  "Astronomy & Astrophysics", and returns a journal whose trimmed text is not a key of the
  table as that trimmed text.
\<close>

theorem normalize_journal_table:
  "normalize_journal (bs # ''apj'') = ''Astrophysical Journal'' \<and>
   normalize_journal (bs # ''aap'') = ''Astronomy & Astrophysics'' \<and>
   (\<forall>j. strip j \<notin> dom JOURNAL_MAP \<longrightarrow> normalize_journal j = strip j)"
proof -
  have s1: "strip (bs # ''apj'') = bs # ''apj''"
    by (simp add: strip_def lstrip_def rstrip_def WHITESPACE_def bs_def)
  have s2: "strip (bs # ''aap'') = bs # ''aap''"
    by (simp add: strip_def lstrip_def rstrip_def WHITESPACE_def bs_def)
  have "normalize_journal (bs # ''apj'') = ''Astrophysical Journal''"
    by (simp add: normalize_journal_def s1 dict_get_def JOURNAL_MAP_apj)
  moreover have "normalize_journal (bs # ''aap'') = ''Astronomy & Astrophysics''"
    by (simp add: normalize_journal_def s2 dict_get_def JOURNAL_MAP_aap)
  moreover have "\<forall>j. strip j \<notin> dom JOURNAL_MAP \<longrightarrow> normalize_journal j = strip j"
    by (auto simp: normalize_journal_def dict_get_def Let_def domIff)
  ultimately show ?thesis by blast
qed

theorem normalize_journal_table_witness:
  "strip '' Nature  '' \<notin> dom JOURNAL_MAP \<and> normalize_journal '' Nature  '' = ''Nature''"
proof -
  have s: "strip '' Nature  '' = ''Nature''"
    by (simp add: strip_def lstrip_def rstrip_def WHITESPACE_def)
  have d: "strip '' Nature  '' \<notin> dom JOURNAL_MAP"
    by (simp add: s domIff JOURNAL_MAP_def JOURNAL_ITEMS_def dict_of_items_def bs_def)
  from normalize_journal_table have
    "strip '' Nature  '' \<notin> dom JOURNAL_MAP \<longrightarrow> normalize_journal '' Nature  '' = strip '' Nature  ''"
    by blast
  with d s show ?thesis by simp
qed


subsection \<open>Order of the rows\<close>

lemma py_int_9999: "py_int ''9999'' = Some 9999"
  by (simp add: py_int_def int_ascii_def ascii_of_char_def cont_byte_def parse_int_def c_strip_def
      c_isspace_def parse_unsigned_def isdigit_def digit_val_def)

lemma py_int_10000: "py_int ''10000'' = Some 10000"
  by (simp add: py_int_def int_ascii_def ascii_of_char_def cont_byte_def parse_int_def c_strip_def
      c_isspace_def parse_unsigned_def isdigit_def digit_val_def)

lemma py_int_2020: "py_int ''2020'' = Some 2020"
  by (simp add: py_int_def int_ascii_def ascii_of_char_def cont_byte_def parse_int_def c_strip_def
      c_isspace_def parse_unsigned_def isdigit_def digit_val_def)

lemma year_int_parsed: "year_int e = (case parsed_year e of None \<Rightarrow> 9999 | Some y \<Rightarrow> y)"
  by (simp add: year_int_def parsed_year_def dict_get_def py_int_9999 split: option.splits)

lemma sorted_entries_fst: "p \<in> set (sorted_entries fs) \<Longrightarrow> fst p = year_int (snd p)"
  by (auto simp: sorted_entries_def all_entries_def)

lemma sorted_entries_sorted: "sorted (map fst (sorted_entries fs))"
  by (simp add: sorted_entries_def)

lemma sorted_entries_stable:
  "filter (\<lambda>p. fst p = y) (sorted_entries fs) = filter (\<lambda>p. fst p = y) (all_entries fs)"
  by (simp add: sorted_entries_def sort_key_stable)

lemma sorted_entries_mset: "mset (sorted_entries fs) = mset (all_entries fs)"
  by (simp add: sorted_entries_def)

lemma sentinel_after:
  assumes i: "i < length (sorted_entries fs)" and j: "j < length (sorted_entries fs)"
    and ni: "parsed_year (snd (sorted_entries fs ! i)) = None"
    and vj: "parsed_year (snd (sorted_entries fs ! j)) = Some y" and y: "y < 9999"
  shows "j < i"
proof (rule ccontr)
  assume "\<not> j < i"
  then have le: "i \<le> j" by simp
  have fi: "fst (sorted_entries fs ! i) = 9999"
    using sorted_entries_fst [of "sorted_entries fs ! i" fs] i ni by (simp add: year_int_parsed)
  have fj: "fst (sorted_entries fs ! j) = y"
    using sorted_entries_fst [of "sorted_entries fs ! j" fs] j vj by (simp add: year_int_parsed)
  from sorted_entries_sorted [of fs] le j
  have "map fst (sorted_entries fs) ! i \<le> map fst (sorted_entries fs) ! j"
    by (intro sorted_nth_mono) simp_all
  with i j fi fj y show False by simp
qed

text \<open>
  Claim C1, as amended. The rows are rendered, in order and numbered from 1, from the pooled
  entries sorted by year: the sorted list is a rearrangement of the pooled one, its years
  never decrease, and the entries of any one year keep the order in which they were pooled.
  An entry whose year is missing or unparseable is given the year 9999, so it comes after
  every entry that states a year below 9999. (Nothing is said of stated years from 9999 on.)
\<close>

theorem rows_ordered_by_year:
  "bib_to_table_rows fs flag =
     map (\<lambda>(i, (year, e)). row_html flag i year e) (enumerate 1 (sorted_entries fs)) \<and>
   mset (sorted_entries fs) = mset (all_entries fs) \<and>
   sorted (map fst (sorted_entries fs)) \<and>
   (\<forall>y. filter (\<lambda>p. fst p = y) (sorted_entries fs) = filter (\<lambda>p. fst p = y) (all_entries fs)) \<and>
   (\<forall>i j y. i < length (sorted_entries fs) \<and> j < length (sorted_entries fs) \<and>
      parsed_year (snd (sorted_entries fs ! i)) = None \<and>
      parsed_year (snd (sorted_entries fs ! j)) = Some y \<and> y < 9999 \<longrightarrow> j < i)"
  using sentinel_after [of _ fs]
  by (simp add: bib_to_table_rows_def sorted_entries_mset sorted_entries_sorted
      sorted_entries_stable)

theorem rows_ordered_by_year_witness:
  "sorted_entries [[ex_no_year, ex_year_2020]] = [(2020, ex_year_2020), (9999, ex_no_year)] \<and>
   (1::nat) < length (sorted_entries [[ex_no_year, ex_year_2020]]) \<and>
   (0::nat) < length (sorted_entries [[ex_no_year, ex_year_2020]]) \<and>
   parsed_year (snd (sorted_entries [[ex_no_year, ex_year_2020]] ! 1)) = None \<and>
   parsed_year (snd (sorted_entries [[ex_no_year, ex_year_2020]] ! 0)) = Some 2020 \<and>
   (2020::int) < 9999 \<and> (0::nat) < 1"
proof -
  have s: "sorted_entries [[ex_no_year, ex_year_2020]] = [(2020, ex_year_2020), (9999, ex_no_year)]"
    by (simp add: ex_no_year_def ex_year_2020_def py_int_2020 py_int_9999
      sorted_entries_def all_entries_def year_int_def dict_get_def)
  have p: "parsed_year ex_no_year = None" "parsed_year ex_year_2020 = Some 2020"
    by (simp_all add: parsed_year_def ex_no_year_def ex_year_2020_def py_int_2020)
  from rows_ordered_by_year [of "[[ex_no_year, ex_year_2020]]" True]
  have "(1::nat) < length (sorted_entries [[ex_no_year, ex_year_2020]]) \<and>
      (0::nat) < length (sorted_entries [[ex_no_year, ex_year_2020]]) \<and>
      parsed_year (snd (sorted_entries [[ex_no_year, ex_year_2020]] ! 1)) = None \<and>
      parsed_year (snd (sorted_entries [[ex_no_year, ex_year_2020]] ! 0)) = Some 2020 \<and>
      (2020::int) < 9999 \<longrightarrow> (0::nat) < 1"
    by blast
  with s p show ?thesis by simp
qed

text \<open>
  The claim as first stated puts an entry without a usable year after every entry with a
  valid one. An entry of the year 10000 is a counterexample: the entry without a year is
  sorted as 9999 and its row comes first.
\<close>

theorem sentinel_before_large_year:
  "parsed_year ex_no_year = None \<and> parsed_year ex_year_10000 = Some 10000 \<and>
   sorted_entries [[ex_year_10000, ex_no_year]] = [(9999, ex_no_year), (10000, ex_year_10000)] \<and>
   bib_to_table_rows [[ex_year_10000, ex_no_year]] True =
     [row_html True 1 9999 ex_no_year, row_html True 2 10000 ex_year_10000]"
  by (simp add: parsed_year_def ex_no_year_def ex_year_10000_def py_int_10000 py_int_9999
      bib_to_table_rows_def sorted_entries_def all_entries_def year_int_def dict_get_def
      numeral_2_eq_2)



subsection \<open>The author cell\<close>

lemma replace_absent: "old \<noteq> [] \<Longrightarrow> hd old \<notin> set s \<Longrightarrow> replace old new s = s"
proof (induction s)
  case Nil
  then show ?case by (simp add: replace.simps)
next
  case (Cons c s)
  from Cons.prems have "\<not> prefix old (c # s)"
    by (cases old) (auto simp: prefix_def)
  with Cons show ?case
    by (subst replace.simps) simp
qed

lemma foldl_replace_absent:
  "\<forall>p \<in> set items. fst p \<noteq> [] \<and> hd (fst p) \<notin> set s \<Longrightarrow>
   foldl (\<lambda>t (latex_seq, char). replace latex_seq char t) s items = s"
  by (induction items) (auto simp: replace_absent)

lemma latex_to_unicode_plain:
  "bs \<notin> set s \<Longrightarrow> CHR ''{'' \<notin> set s \<Longrightarrow> CHR ''}'' \<notin> set s \<Longrightarrow> latex_to_unicode s = s"
proof -
  assume a: "bs \<notin> set s" and b: "CHR ''{'' \<notin> set s" and c: "CHR ''}'' \<notin> set s"
  have "foldl (\<lambda>t (latex_seq, char). replace latex_seq char t) s LATEX_ACCENTS = s"
    by (rule foldl_replace_absent) (use a in \<open>simp add: LATEX_ACCENTS_def\<close>)
  with b c show ?thesis
    by (simp add: latex_to_unicode_def replace_absent)
qed

lemma latex_to_unicode_et_al: "latex_to_unicode ''{et al.}'' = ''et al.''"
proof -
  have "foldl (\<lambda>t (latex_seq, char). replace latex_seq char t) ''{et al.}'' LATEX_ACCENTS = ''{et al.}''"
    by (rule foldl_replace_absent) (simp add: LATEX_ACCENTS_def bs_def)
  moreover have "replace ''{'' '''' ''{et al.}'' = ''et al.}''"
    by (simp add: replace.simps)
  moreover have "replace ''}'' '''' ''et al.}'' = ''et al.''"
    by (simp add: replace.simps)
  ultimately show ?thesis by (simp add: latex_to_unicode_def)
qed

lemma sublist_split_char:
  assumes sub: "sublist p (u @ c # v)" and c: "c \<notin> set p"
  shows "sublist p u \<or> sublist p v"
proof -
  have pre: "p2 = []" if "prefix p2 (c # v)" "set p2 \<subseteq> set p" for p2
    using that c by (cases p2) auto
  from sub consider "sublist p u" | "sublist p (c # v)"
    | p1 p2 where "p = p1 @ p2" "suffix p1 u" "prefix p2 (c # v)"
    by (auto simp: sublist_append)
  then show ?thesis
  proof cases
    case 1
    then show ?thesis by simp
  next
    case 2
    then have "prefix p (c # v) \<or> sublist p v"
      by (simp add: sublist_Cons_right)
    with pre [of p] show ?thesis by auto
  next
    case 3
    with pre [of p2] have "p2 = []" by simp
    with 3 show ?thesis by simp
  qed
qed

lemma sublist_disjoint: "sublist p s \<Longrightarrow> set p \<inter> set s = {} \<Longrightarrow> p = []"
  using set_mono_sublist [of p s] by (cases p) auto

lemma et_al_bold:
  assumes "sublist ''et al.'' (''<b>'' @ a @ ''</b>'')"
  shows "sublist ''et al.'' a"
proof -
  from assms have "sublist ''et al.'' (''<b'' @ CHR ''>'' # (a @ ''</b>''))" by simp
  then have "sublist ''et al.'' ''<b'' \<or> sublist ''et al.'' (a @ ''</b>'')"
    by (rule sublist_split_char) simp
  moreover have "\<not> sublist ''et al.'' ''<b''"
    using sublist_disjoint [of "''et al.''" "''<b''"] by auto
  ultimately have "sublist ''et al.'' (a @ CHR ''<'' # ''/b>'')" by simp
  then have "sublist ''et al.'' a \<or> sublist ''et al.'' ''/b>''"
    by (rule sublist_split_char) simp
  moreover have "\<not> sublist ''et al.'' ''/b>''"
    using sublist_disjoint [of "''et al.''" "''/b>''"] by auto
  ultimately show ?thesis by simp
qed

lemma et_al_join:
  "\<forall>x \<in> set xs. \<not> sublist ''et al.'' x \<Longrightarrow> \<not> sublist ''et al.'' (join '', '' xs)"
proof (induction xs rule: induct_list012)
  case 1
  then show ?case by simp
next
  case (2 x)
  then show ?case by simp
next
  case (3 x y ys)
  show ?case
  proof
    assume "sublist ''et al.'' (join '', '' (x # y # ys))"
    then have "sublist ''et al.'' (x @ CHR '','' # (CHR '' '' # join '', '' (y # ys)))" by simp
    then have "sublist ''et al.'' x \<or> sublist ''et al.'' (CHR '' '' # join '', '' (y # ys))"
      by (rule sublist_split_char) simp
    moreover have "\<not> sublist ''et al.'' x" using 3 by simp
    moreover have "\<not> sublist ''et al.'' (join '', '' (y # ys))" using 3 by simp
    ultimately show False
      by (simp add: sublist_Cons_right)
  qed
qed

lemma authors_html_first:
  assumes "authors_list e = a # as"
  shows "authors_html True e =
     (if 3 \<le> length as then join '', '' (take 3 ((''<b>'' @ a @ ''</b>'') # as)) @ '', et al.''
      else join '', '' ((''<b>'' @ a @ ''</b>'') # as))"
  using assms by (simp add: authors_html_def Let_def)

text \<open>
  Claim C2, as amended. In first-author mode, for an entry whose author list (after accent
  transcription) is \<open>a # as\<close>: with at most three authors the cell is all of them joined by
  ", ", the first one in bold, nothing is added to it, and it contains "et al." only if the
  name of an author does; with more than three authors the cell is the first three names,
  the first one in bold, followed by ", et al.".
\<close>

theorem first_author_cell:
  "authors_list e = a # as \<Longrightarrow>
   (length as \<le> 2 \<longrightarrow>
      authors_html True e = join '', '' ((''<b>'' @ a @ ''</b>'') # as) \<and>
      ((\<forall>x \<in> set (a # as). \<not> sublist ''et al.'' x) \<longrightarrow> \<not> sublist ''et al.'' (authors_html True e))) \<and>
   (3 \<le> length as \<longrightarrow>
      authors_html True e = ''<b>'' @ a @ ''</b>, '' @ as ! 0 @ '', '' @ as ! 1 @ '', et al.'')"
proof -
  assume al: "authors_list e = a # as"
  have short: "authors_html True e = join '', '' ((''<b>'' @ a @ ''</b>'') # as)" if "length as \<le> 2"
    using that authors_html_first [OF al] by simp
  have clean: "\<not> sublist ''et al.'' (authors_html True e)"
    if "length as \<le> 2" "\<forall>x \<in> set (a # as). \<not> sublist ''et al.'' x"
  proof -
    have "\<forall>x \<in> set ((''<b>'' @ a @ ''</b>'') # as). \<not> sublist ''et al.'' x"
      using that(2) et_al_bold [of a] by auto
    then show ?thesis unfolding short [OF that(1)] by (rule et_al_join)
  qed
  have long: "authors_html True e = ''<b>'' @ a @ ''</b>, '' @ as ! 0 @ '', '' @ as ! 1 @ '', et al.''"
    if "3 \<le> length as"
  proof -
    from that obtain b c d ds where "as = b # c # d # ds"
      by (cases as; cases "tl as"; cases "tl (tl as)") auto
    with authors_html_first [OF al] show ?thesis by simp
  qed
  from short clean long show ?thesis by blast
qed

lemma authors_two: "authors_list ex_two_authors = [''Beniyama, Jin'', ''Sako, Shigeyuki'']"
  by (simp add: authors_list_def ex_two_authors_def dict_get_def latex_to_unicode_plain bs_def)

lemma authors_et_al: "authors_list ex_et_al = [''et al.'']"
  by (simp add: authors_list_def ex_et_al_def dict_get_def latex_to_unicode_et_al)

text \<open>
  Claim C2 as first stated says that a cell of at most three authors never contains
  "et al.". A single author written \<open>{et al.}\<close> in the file is a counterexample.
\<close>

theorem et_al_author_shown:
  "length (authors_list ex_et_al) = 1 \<and> authors_html True ex_et_al = ''<b>et al.</b>'' \<and>
   sublist ''et al.'' (authors_html True ex_et_al)"
proof -
  have "authors_html True ex_et_al = ''<b>'' @ ''et al.'' @ ''</b>''"
    by (simp add: authors_html_def authors_et_al)
  then show ?thesis by (simp add: authors_et_al sublist_Cons_right)
qed


lemma authors_four:
  "authors_list ex_four_authors = [''Beniyama, Jin'', ''Sako, Shigeyuki'', ''Ohsawa, Ryou'', ''Takita, Satoshi'']"
  by (simp add: authors_list_def ex_four_authors_def dict_get_def latex_to_unicode_plain bs_def)

theorem first_author_cell_witness:
  "authors_list ex_two_authors = [''Beniyama, Jin'', ''Sako, Shigeyuki''] \<and>
   length [''Sako, Shigeyuki''] \<le> 2 \<and>
   \<not> sublist ''et al.'' ''Beniyama, Jin'' \<and> \<not> sublist ''et al.'' ''Sako, Shigeyuki'' \<and>
   authors_html True ex_two_authors = ''<b>Beniyama, Jin</b>, Sako, Shigeyuki'' \<and>
   \<not> sublist ''et al.'' (authors_html True ex_two_authors) \<and>
   authors_list ex_four_authors =
     [''Beniyama, Jin'', ''Sako, Shigeyuki'', ''Ohsawa, Ryou'', ''Takita, Satoshi''] \<and>
   3 \<le> length [''Sako, Shigeyuki'', ''Ohsawa, Ryou'', ''Takita, Satoshi''] \<and>
   authors_html True ex_four_authors =
     ''<b>Beniyama, Jin</b>, Sako, Shigeyuki, Ohsawa, Ryou, et al.''"
proof -
  have l2: "length [''Sako, Shigeyuki''] \<le> 2" by simp
  have l4: "3 \<le> length [''Sako, Shigeyuki'', ''Ohsawa, Ryou'', ''Takita, Satoshi'']" by simp
  have clean: "\<forall>x \<in> set [''Beniyama, Jin'', ''Sako, Shigeyuki'']. \<not> sublist ''et al.'' x"
    by (simp add: sublist_Cons_right)
  from first_author_cell [OF authors_two] l2
  have two: "authors_html True ex_two_authors = ''<b>Beniyama, Jin</b>, Sako, Shigeyuki''"
    by simp
  from first_author_cell [OF authors_two] l2 clean
  have shown: "\<not> sublist ''et al.'' (authors_html True ex_two_authors)"
    by blast
  from first_author_cell [OF authors_four] l4
  have four: "authors_html True ex_four_authors =
     ''<b>Beniyama, Jin</b>, Sako, Shigeyuki, Ohsawa, Ryou, et al.''"
    by simp
  from clean have c1: "\<not> sublist ''et al.'' ''Beniyama, Jin''"
    and c2: "\<not> sublist ''et al.'' ''Sako, Shigeyuki''"
    by simp_all
  show ?thesis
    by (intro conjI authors_two l2 c1 c2 two shown authors_four l4 four)
qed

subsection \<open>The link of the title\<close>

text \<open>
  Claim C3, as amended. The target of the title's link is \<open>https://doi.org/<doi>\<close> whenever
  the entry has a DOI field that is not empty, whatever its URL field; when the DOI field is
  missing or empty the target is the URL field, and "#" when there is no URL field either.
\<close>

theorem title_link_target:
  \<open>(\<forall>d. entry_fields e ''doi'' = Some d \<and> d \<noteq> [] \<longrightarrow> url e = ''https://doi.org/'' @ d) \<and>
   (entry_fields e ''doi'' = None \<or> entry_fields e ''doi'' = Some [] \<longrightarrow>
      url e = (case entry_fields e ''url'' of Some u \<Rightarrow> u | None \<Rightarrow> ''#'')) \<and>
   title_html e = ''<a href="'' @ url e @ ''" target="_blank">'' @ title e @ ''</a>''\<close>
  by (auto simp: url_def title_html_def dict_get_def split: option.splits)

theorem title_link_target_witness:
  "entry_fields ex_doi_url ''doi'' = Some ''10.1093/pasj/psac043'' \<and> ''10.1093/pasj/psac043'' \<noteq> [] \<and>
   entry_fields ex_doi_url ''url'' = Some ''https://example.org/paper'' \<and>
   url ex_doi_url = ''https://doi.org/10.1093/pasj/psac043'' \<and>
   entry_fields ex_no_year ''doi'' = None \<and> url ex_no_year = ''#''"
proof -
  have a: "entry_fields ex_doi_url ''doi'' = Some ''10.1093/pasj/psac043''"
    "entry_fields ex_doi_url ''url'' = Some ''https://example.org/paper''"
    "entry_fields ex_no_year ''doi'' = None" "entry_fields ex_no_year ''url'' = None"
    by (simp_all add: ex_doi_url_def ex_no_year_def)
  from title_link_target [of ex_doi_url] a
  have "url ex_doi_url = ''https://doi.org/'' @ ''10.1093/pasj/psac043''" by blast
  moreover from title_link_target [of ex_no_year] a
  have "url ex_no_year = (case entry_fields ex_no_year ''url'' of Some u \<Rightarrow> u | None \<Rightarrow> ''#'')" by blast
  ultimately show ?thesis using a by simp
qed

text \<open>
  Claim C3 as first stated gives the DOI link whenever a DOI field is present. An entry with
  an empty DOI field and a URL is a counterexample: the link goes to the URL.
\<close>

theorem empty_doi_uses_url:
  "entry_fields ex_empty_doi ''doi'' = Some [] \<and>
   entry_fields ex_empty_doi ''url'' = Some ''https://example.org/paper'' \<and>
   url ex_empty_doi = ''https://example.org/paper'' \<and>
   url ex_empty_doi \<noteq> ''https://doi.org/'' @ []"
  by (simp add: ex_empty_doi_def url_def dict_get_def)

subsection \<open>The journal cell\<close>

lemma digit_cases: "d < 10 \<Longrightarrow> d = 0 \<or> d = 1 \<or> d = 2 \<or> d = 3 \<or> d = 4 \<or> d = 5 \<or> d = 6 \<or> d = 7 \<or> d = 8 \<or> d = (9::nat)"
  by arith

lemma digit_char_digit: "d < 10 \<Longrightarrow> isdigit (digit_char d) \<and> digit_val (digit_char d) = d"
  using digit_cases [of d] by (auto simp: digit_char_def isdigit_def digit_val_def)

lemma isdigit_ascii: "isdigit c \<Longrightarrow> (of_char c :: nat) < 0x80 \<and> \<not> c_isspace c \<and> c \<noteq> CHR ''-'' \<and> c \<noteq> CHR ''+''"
  by (auto simp: isdigit_def c_isspace_def)

lemma str_nat_digits: "c \<in> set (str_nat n) \<Longrightarrow> isdigit c"
proof (induction n arbitrary: c rule: str_nat.induct)
  case (1 n)
  show ?case
  proof (cases "n < 10")
    case True
    with 1(2) digit_char_digit [of n] show ?thesis by (simp add: str_nat.simps [of n])
  next
    case False
    with 1 digit_char_digit [of "n mod 10"] show ?thesis
      by (auto simp: str_nat.simps [of n])
  qed
qed

lemma str_nat_nonempty: "str_nat n \<noteq> []"
  by (subst str_nat.simps) simp

lemma parse_digits_snoc:
  "\<forall>c \<in> set s. isdigit c \<Longrightarrow> isdigit d \<Longrightarrow>
   parse_digits acc (s @ [d]) = map_option (\<lambda>v. v * 10 + digit_val d) (parse_digits acc s)"
proof (induction acc s rule: parse_digits.induct)
  case (1 acc)
  then show ?case by simp
next
  case (2 acc c)
  then show ?case by simp
next
  case (3 acc c e ds)
  then show ?case by simp
qed

lemma parse_unsigned_snoc:
  "s \<noteq> [] \<Longrightarrow> \<forall>c \<in> set s. isdigit c \<Longrightarrow> isdigit d \<Longrightarrow>
   parse_unsigned (s @ [d]) = map_option (\<lambda>v. v * 10 + digit_val d) (parse_unsigned s)"
  by (cases s) (simp_all add: parse_unsigned_def parse_digits_snoc)

lemma parse_unsigned_str_nat: "parse_unsigned (str_nat n) = Some n"
proof (induction n rule: str_nat.induct)
  case (1 n)
  show ?case
  proof (cases "n < 10")
    case True
    with digit_char_digit [of n] show ?thesis
      by (simp add: str_nat.simps [of n] parse_unsigned_def)
  next
    case False
    have "parse_unsigned (str_nat (n div 10) @ [digit_char (n mod 10)]) =
        map_option (\<lambda>v. v * 10 + digit_val (digit_char (n mod 10))) (parse_unsigned (str_nat (n div 10)))"
      using digit_char_digit [of "n mod 10"]
      by (intro parse_unsigned_snoc) (simp_all add: str_nat_nonempty str_nat_digits)
    with False 1 digit_char_digit [of "n mod 10"] show ?thesis
      by (simp add: str_nat.simps [of n])
  qed
qed

lemma utf8_chars_ascii: "\<forall>c \<in> set s. \<not> cont_byte c \<Longrightarrow> utf8_chars s = map (\<lambda>c. [c]) s"
  by (induction s rule: utf8_chars.induct) auto

lemma those_ascii:
  "\<forall>c \<in> set s. (of_char c :: nat) < 0x80 \<Longrightarrow> those (map (ascii_of_char \<circ> (\<lambda>c. [c])) s) = Some s"
  by (induction s) (simp_all add: ascii_of_char_def)

lemma int_ascii_ascii: "\<forall>c \<in> set s. (of_char c :: nat) < 0x80 \<Longrightarrow> int_ascii s = Some s"
proof -
  assume a: "\<forall>c \<in> set s. (of_char c :: nat) < 0x80"
  then have "\<forall>c \<in> set s. \<not> cont_byte c" by (auto simp: cont_byte_def)
  with a show ?thesis by (simp add: int_ascii_def utf8_chars_ascii those_ascii)
qed

lemma c_strip_keep:
  "s \<noteq> [] \<Longrightarrow> \<not> c_isspace (hd s) \<Longrightarrow> \<not> c_isspace (last s) \<Longrightarrow> c_strip s = s"
proof -
  assume ne: "s \<noteq> []" and h: "\<not> c_isspace (hd s)" and l: "\<not> c_isspace (last s)"
  from ne h have a: "dropWhile c_isspace s = s"
    by (cases s) simp_all
  from ne l have b: "dropWhile c_isspace (rev s) = rev s"
    by (cases "rev s") (simp_all add: last_rev [symmetric] hd_rev)
  show ?thesis
    by (simp add: c_strip_def a b)
qed

lemma py_int_str_nat: "py_int (str_nat n) = Some (int n)"
proof -
  obtain c cs where s: "str_nat n = c # cs" using str_nat_nonempty [of n] by (cases "str_nat n") auto
  have d: "\<forall>x \<in> set (str_nat n). isdigit x" using str_nat_digits by blast
  then have "int_ascii (str_nat n) = Some (str_nat n)"
    by (intro int_ascii_ascii) (auto dest: isdigit_ascii)
  moreover have "c_strip (str_nat n) = str_nat n"
    using d str_nat_nonempty [of n] isdigit_ascii
    by (intro c_strip_keep) (auto simp: last_in_set hd_in_set)
  moreover have "isdigit c" using d s by simp
  ultimately show ?thesis
    using s parse_unsigned_str_nat [of n] isdigit_ascii [of c]
    by (simp add: py_int_def parse_int_def)
qed

lemma py_int_str_int: "py_int (str_int i) = Some i"
proof (cases "i < 0")
  case False
  then show ?thesis by (simp add: str_int_def py_int_str_nat)
next
  case True
  let ?s = "CHR ''-'' # str_nat (nat (- i))"
  have d: "\<forall>x \<in> set (str_nat (nat (- i))). isdigit x" using str_nat_digits by blast
  then have "int_ascii ?s = Some ?s"
    by (intro int_ascii_ascii) (auto dest: isdigit_ascii)
  moreover have "c_strip ?s = ?s"
    using d str_nat_nonempty [of "nat (- i)"] isdigit_ascii
    by (intro c_strip_keep) (auto simp: last_in_set c_isspace_def)
  ultimately show ?thesis
    using True parse_unsigned_str_nat [of "nat (- i)"]
    by (simp add: str_int_def py_int_def parse_int_def)
qed

lemma str_int_nonempty: "str_int i \<noteq> []"
  by (simp add: str_int_def str_nat_nonempty)

lemma journal_info_explicit:
  "journal_info year e =
     (let journal = normalize_journal (case entry_fields e ''journal'' of Some j \<Rightarrow> j | None \<Rightarrow> []);
          volume = (case entry_fields e ''volume'' of Some v \<Rightarrow> v | None \<Rightarrow> []);
          pages = (case entry_fields e ''pages'' of Some p \<Rightarrow> p | None \<Rightarrow> [])
      in (if journal = [] then [] else journal @ '', '') @ (if volume = [] then [] else volume @ '', '') @
         (if pages = [] then [] else pages @ '', '') @ str_int year)"
  by (simp add: journal_info_def dict_get_def Let_def str_int_nonempty)

lemma rows_nth:
  "i < length (sorted_entries fs) \<Longrightarrow>
   bib_to_table_rows fs flag ! i =
     row_html flag (Suc i) (year_int (snd (sorted_entries fs ! i))) (snd (sorted_entries fs ! i))"
  using sorted_entries_fst [of "sorted_entries fs ! i" fs]
  by (simp add: bib_to_table_rows_def nth_enumerate_eq case_prod_beta)

lemma str_int_2022: "str_int 2022 = ''2022''"
  by (simp add: str_int_def str_nat.simps digit_char_def)

lemma year_int_paper: "year_int ex_paper = 2022"
  by (simp add: year_int_def ex_paper_def dict_get_def py_int_def int_ascii_def ascii_of_char_def cont_byte_def parse_int_def c_strip_def
      c_isspace_def parse_unsigned_def isdigit_def digit_val_def)

lemma strip_apj: "strip (bs # ''apj'') = bs # ''apj''"
  by (simp add: strip_def lstrip_def rstrip_def WHITESPACE_def bs_def)

lemma normalize_apj: "normalize_journal (bs # ''apj'') = ''Astrophysical Journal''"
  by (simp add: normalize_journal_def strip_apj dict_get_def JOURNAL_MAP_apj)

lemma journal_info_paper: "journal_info 2022 ex_paper = ''Astrophysical Journal, 933, 2022''"
  by (simp add: journal_info_explicit ex_paper_def normalize_apj str_int_2022)


text \<open>
  Claim C5. The journal cell of an entry is its normalized journal, its volume, its pages and
  its year, in that order, each followed by ", " except the year, where a journal, volume or
  pages that is empty (or missing) is left out. The year is the one by which the entry is
  sorted, written in decimal (\<open>int\<close> reads it back), and the cell is the last cell of the
  row of that entry.
\<close>

theorem journal_cell:
  \<open>journal_info (year_int e) e =
     (let journal = normalize_journal (case entry_fields e ''journal'' of Some j \<Rightarrow> j | None \<Rightarrow> []);
          volume = (case entry_fields e ''volume'' of Some v \<Rightarrow> v | None \<Rightarrow> []);
          pages = (case entry_fields e ''pages'' of Some p \<Rightarrow> p | None \<Rightarrow> [])
      in (if journal = [] then [] else journal @ '', '') @ (if volume = [] then [] else volume @ '', '') @
         (if pages = [] then [] else pages @ '', '') @ str_int (year_int e)) \<and>
   (\<forall>i. py_int (str_int i) = Some i) \<and>
   (\<forall>i < length (sorted_entries fs).
      bib_to_table_rows fs flag ! i =
        row_html flag (Suc i) (year_int (snd (sorted_entries fs ! i))) (snd (sorted_entries fs ! i))) \<and>
   (\<exists>before. row_html flag n (year_int e) e =
      before @ ''          <td>'' @ journal_info (year_int e) e @ ''</td>\<newline>        </tr>'') \<and>
   journal_info (year_int ex_paper) ex_paper = ''Astrophysical Journal, 933, 2022'' \<and>
   journal_info (year_int ex_no_year) ex_no_year = ''9999''\<close>
proof -
  have a: "\<forall>i < length (sorted_entries fs).
      bib_to_table_rows fs flag ! i =
        row_html flag (Suc i) (year_int (snd (sorted_entries fs ! i))) (snd (sorted_entries fs ! i))"
    by (simp add: rows_nth)
  have b: \<open>\<exists>before. row_html flag n (year_int e) e =
      before @ ''          <td>'' @ journal_info (year_int e) e @ ''</td>\<newline>        </tr>''\<close>
    by (simp add: row_html_def)
  have c: "journal_info (year_int ex_paper) ex_paper = ''Astrophysical Journal, 933, 2022''"
    by (simp add: year_int_paper journal_info_paper)
  have "year_int ex_no_year = 9999"
    by (simp add: year_int_def ex_no_year_def dict_get_def py_int_9999)
  moreover have "str_int 9999 = ''9999''"
    by (simp add: str_int_def str_nat.simps digit_char_def)
  moreover have "normalize_journal [] = []"
    by (simp add: normalize_journal_def strip_def lstrip_def rstrip_def dict_get_def JOURNAL_MAP_def
        JOURNAL_ITEMS_def dict_of_items_def)
  ultimately have d: "journal_info (year_int ex_no_year) ex_no_year = ''9999''"
    by (simp add: journal_info_explicit ex_no_year_def)
  from a b c d journal_info_explicit [of "year_int e" e] py_int_str_int show ?thesis
    by simp
qed

lemma sorted_paper: "sorted_entries [[ex_paper]] = [(2022, ex_paper)]"
  by (simp add: sorted_entries_def all_entries_def year_int_paper)

theorem journal_cell_witness:
  "(0::nat) < length (sorted_entries [[ex_paper]]) \<and>
   year_int (snd (sorted_entries [[ex_paper]] ! 0)) = 2022 \<and>
   bib_to_table_rows [[ex_paper]] True ! 0 = row_html True 1 2022 ex_paper \<and>
   journal_info 2022 ex_paper = ''Astrophysical Journal, 933, 2022''"
proof -
  have l: "(0::nat) < length (sorted_entries [[ex_paper]])"
    by (simp add: sorted_paper)
  from journal_cell [of ex_paper "[[ex_paper]]" True 0] l
  have r: "bib_to_table_rows [[ex_paper]] True ! 0 =
      row_html True (Suc 0) (year_int (snd (sorted_entries [[ex_paper]] ! 0))) (snd (sorted_entries [[ex_paper]] ! 0))"
    by blast
  from journal_cell [of ex_paper "[[ex_paper]]" True 0]
  have j: "journal_info (year_int ex_paper) ex_paper = ''Astrophysical Journal, 933, 2022''"
    by blast
  from l r j show ?thesis by (simp add: sorted_paper year_int_paper)
qed

subsection \<open>The parser of the presentation log\<close>

lemma parse_lines_finish: "parse_lines ls = finish (parse_loop [] [] ls)"
  by (simp add: parse_lines_def finish_def)

lemma field_step_blank: "strip l = [] \<Longrightarrow> field_step cur l = cur"
  by (simp add: field_step_def)

lemma record_of_block_snoc: "record_of_block (b @ [l]) = field_step (record_of_block b) l"
  by (simp add: record_of_block_def)

lemma parse_loop_blocks:
  "finish (parse_loop entries (record_of_block cur) ls) =
     entries @ filter (\<lambda>r. r \<noteq> []) (map record_of_block (split_blocks cur ls))"
proof (induction ls arbitrary: entries cur)
  case Nil
  then show ?case by (simp add: finish_def)
next
  case (Cons l ls)
  have e: "record_of_block [] = []" by (simp add: record_of_block_def)
  show ?case
  proof (cases "strip l = []")
    case True
    show ?thesis
    proof (cases "record_of_block cur = []")
      case True
      with \<open>strip l = []\<close> Cons.IH [of entries "[]"] show ?thesis by (simp add: e)
    next
      case False
      with \<open>strip l = []\<close> Cons.IH [of "entries @ [record_of_block cur]" "[]"] show ?thesis
        by (simp add: e)
    qed
  next
    case False
    then show ?thesis
      using Cons.IH [of entries "cur @ [l]"]
      by (cases "CHR '':'' \<in> set (strip l)")
        (simp_all add: record_of_block_snoc field_step_def split_colon_def Let_def)
  qed
qed

lemma parse_lines_spec: "parse_lines ls = spec_parse ls"
  using parse_loop_blocks [of "[]" "[]" ls]
  by (simp add: parse_lines_finish spec_parse_def record_of_block_def)

lemma parse_lines_nonempty: "r \<in> set (parse_lines ls) \<Longrightarrow> r \<noteq> []"
  by (auto simp: parse_lines_spec spec_parse_def)

lemma junk_block:
  "\<forall>l \<in> set junk. strip l = [] \<or> CHR '':'' \<notin> set (strip l) \<Longrightarrow>
   parse_loop entries [] (junk @ rest) = parse_loop entries [] rest"
  by (induction junk) (auto simp: Let_def)


text \<open>
  Claim C10. Every record that \<open>parse_txt_file\<close> returns has at least one field; a run of
  lines that are blank or have no colon, met while no record is open, adds nothing, and a
  file of such lines only has no records.
\<close>

theorem parsed_records_nonempty:
  "(\<forall>r \<in> set (parse_txt_file content). r \<noteq> []) \<and>
   (\<forall>junk entries rest. (\<forall>l \<in> set junk. strip l = [] \<or> CHR '':'' \<notin> set (strip l)) \<longrightarrow>
      parse_loop entries [] (junk @ rest) = parse_loop entries [] rest \<and> parse_lines junk = [])"
proof -
  have a: "\<forall>r \<in> set (parse_txt_file content). r \<noteq> []"
    by (simp add: parse_txt_file_def parse_lines_nonempty)
  have b: "parse_loop entries [] (junk @ rest) = parse_loop entries [] rest \<and> parse_lines junk = []"
    if "\<forall>l \<in> set junk. strip l = [] \<or> CHR '':'' \<notin> set (strip l)" for junk entries rest
    using junk_block [OF that, of "[]" "[]"] junk_block [OF that, of entries rest]
    by (simp add: parse_lines_def)
  from a b show ?thesis by blast
qed


lemma strip_note: "strip ''note'' = ''note''"
  by (simp add: strip_def lstrip_def rstrip_def WHITESPACE_def)

lemma parse_example_file:
  \<open>parse_txt_file ''\<newline>\<newline>note\<newline>\<newline>Title: A\<newline>\<newline>\<newline>'' = [[(''Title'', ''A'')]]\<close>
  by (simp add: parse_txt_file_def parse_lines_def readlines_def LF_def CR_def split_colon_def
      strip_def lstrip_def rstrip_def WHITESPACE_def)

theorem parsed_records_nonempty_witness:
  \<open>[(''Title'', ''A'')] \<in> set (parse_txt_file ''\<newline>\<newline>note\<newline>\<newline>Title: A\<newline>\<newline>\<newline>'') \<and>
   [(''Title'', ''A'')] \<noteq> ([] :: pres) \<and>
   strip '''' = [] \<and> CHR '':'' \<notin> set (strip ''note'') \<and>
   parse_loop [] [] ([[], ''note''] @ [''Title: A'']) = parse_loop [] [] [''Title: A''] \<and>
   parse_lines [[], ''note''] = []\<close>
proof -
  have m: \<open>[(''Title'', ''A'')] \<in> set (parse_txt_file ''\<newline>\<newline>note\<newline>\<newline>Title: A\<newline>\<newline>\<newline>'')\<close>
    by (simp add: parse_example_file)
  have j: "\<forall>l \<in> set [[], ''note'']. strip l = [] \<or> CHR '':'' \<notin> set (strip l)"
    by (simp add: strip_note) (simp add: strip_def lstrip_def rstrip_def)
  from parsed_records_nonempty [of \<open>''\<newline>\<newline>note\<newline>\<newline>Title: A\<newline>\<newline>\<newline>''\<close>] m
  have a: "[(''Title'', ''A'')] \<noteq> ([] :: pres)" by blast
  from parsed_records_nonempty [of "[]"] j
  have b: "parse_loop [] [] ([[], ''note''] @ [''Title: A'']) = parse_loop [] [] [''Title: A''] \<and>
      parse_lines [[], ''note''] = []"
    by blast
  have s: "strip [] = []" by (simp add: strip_def lstrip_def rstrip_def)
  from m a b s show ?thesis by (simp add: strip_note)
qed

subsection \<open>The presentation converter as shipped\<close>

lemma in_module_fails: "in_module v = Inl SyntaxError"
  by (simp add: in_module_def module_compiles_def ends_statement_def LINE_167_REST_def)

text \<open>
  Claim C6. A log that is one well-formed block without a newline at its end: the body of
  \<open>parse_txt_file\<close> yields its one record, as the claim says, but in the file as shipped
  the call raises \<open>SyntaxError\<close> and yields no record.
\<close>

theorem shipped_parser_fails:
  "in_module (parse_txt_file (''Title: A'' @ [LF] @ ''Dates: 2023-04-10; 2023-04-12'')) = Inl SyntaxError \<and>
   parse_txt_file (''Title: A'' @ [LF] @ ''Dates: 2023-04-10; 2023-04-12'') =
     [[(''Title'', ''A''), (''Dates'', ''2023-04-10; 2023-04-12'')]]"
proof -
  have "parse_txt_file (''Title: A'' @ [LF] @ ''Dates: 2023-04-10; 2023-04-12'') =
     [[(''Title'', ''A''), (''Dates'', ''2023-04-10; 2023-04-12'')]]"
    by (simp add: parse_txt_file_def parse_lines_def readlines_def LF_def CR_def split_colon_def
        strip_def lstrip_def rstrip_def WHITESPACE_def)
  then show ?thesis by (simp add: in_module_fails)
qed

lemma start_year_2023: "start_year ex_talk_2023 = Some 2023"
  by (simp add: start_year_def ex_talk_2023_def pres_get_def dict_get_def start_date_def EN_DASH_def
      strip_def lstrip_def rstrip_def WHITESPACE_def take_chars_def
      py_int_def int_ascii_def ascii_of_char_def cont_byte_def parse_int_def c_strip_def
      c_isspace_def parse_unsigned_def isdigit_def digit_val_def)

text \<open>
  Claim C7. A record with \<open>Dates: 2023-04-10; 2023-04-12\<close>: its start year is 2023 and the
  loop of \<open>count_per_year\<close> counts it for 2023, as the claim says, but in the file as
  shipped \<open>count_per_year\<close> raises \<open>SyntaxError\<close> and counts nothing.
\<close>

theorem shipped_count_fails:
  "count_per_year [ex_talk_2023] = Inl SyntaxError \<and>
   start_year ex_talk_2023 = Some 2023 \<and>
   counter_get (count_loop Map.empty [ex_talk_2023]) 2023 = 1"
  by (simp add: count_per_year_def in_module_fails start_year_2023 counter_get_def)

text \<open>
  Claim C9. A run without the option \<open>--fig\<close>: the page that the body of \<open>main\<close> builds
  holds the image element with the source "None", as the claim says, but the run of the file
  as shipped raises \<open>SyntaxError\<close> and writes no page.
\<close>

theorem shipped_page_fails:
  "fig ex_pres_run = None \<and> pres_main ex_pres_run = Inl SyntaxError \<and>
   sublist (IMG ''None'') (main_page ex_pres_run)"
proof -
  have "main_page ex_pres_run = (PRES_TEMPLATE_0 @ now ex_pres_run @ '' \<newline>  '') @ IMG ''None'' @
      (''\<newline>\<newline>'' @ make_table_html (parse_txt_file (domestic ex_pres_run)) ''Domestic Presentations''
        @ make_table_html (parse_txt_file (international ex_pres_run)) ''International Presentations''
        @ PRES_TEMPLATE_3)"
    by (simp add: main_page_def pres_HTML_TEMPLATE_def PRES_TEMPLATE_1_def PRES_TEMPLATE_2_def IMG_def
        str_option_def ex_pres_run_def)
  then have "sublist (IMG ''None'') (main_page ex_pres_run)"
    unfolding sublist_def by blast
  then show ?thesis
    by (simp add: pres_main_def in_module_fails) (simp add: ex_pres_run_def)
qed

end
